theory Spec2Isabelle
  imports Complex_Main "HOL-Library.Sublist"
begin

section \<open>JavaScript values as the popup script sees them\<close>

text \<open>
  The script \<^verbatim>\<open>popup.js\<close> handles untyped values: the decoded body of the API
  response, the decoded inner JSON, the argument of \<^verbatim>\<open>fetchSimilarSites\<close>.
  A value is one of the shapes \<^verbatim>\<open>JSON.parse\<close> can produce, or \<^verbatim>\<open>undefined\<close>.
  Numbers are rationals: the script only tests them for being zero, for being
  positive and for not being strings. Strings are lists of 8-bit characters; an object is
  the list of its own properties.
\<close>

datatype jsval =
    JUndefined
  | JNull
  | JBool bool
  | JNum rat
  | JStr string
  | JArr "jsval list"
  | JObj "(string \<times> jsval) list"

text \<open>A thrown value: the error's constructor name and its \<^verbatim>\<open>message\<close>.\<close>

datatype js_error = JsError (err_name: string) (message: string)

text \<open>Truthiness, as \<^verbatim>\<open>!x\<close>, \<^verbatim>\<open>x && y\<close> and \<^verbatim>\<open>if (x)\<close> test it.\<close>

fun truthy :: "jsval \<Rightarrow> bool" where
  "truthy JUndefined = False"
| "truthy JNull = False"
| "truthy (JBool b) = b"
| "truthy (JNum r) = (r \<noteq> 0)"
| "truthy (JStr s) = (s \<noteq> [])"
| "truthy (JArr xs) = True"
| "truthy (JObj kvs) = True"

definition quote_char :: char where
  "quote_char = CHR 0x27"

definition null_read_error :: "string \<Rightarrow> string \<Rightarrow> js_error" where
  "null_read_error what k =
     JsError ''TypeError''
       (''Cannot read properties of '' @ what @ '' (reading '' @ [quote_char] @ k @ [quote_char] @ '')'')"

text \<open>
  Property read \<^verbatim>\<open>v.k\<close> and \<^verbatim>\<open>v[0]\<close> (the key \<^verbatim>\<open>0\<close>), for the property names the
  script reads: \<^verbatim>\<open>candidates\<close>, \<^verbatim>\<open>length\<close>, \<^verbatim>\<open>0\<close>, \<^verbatim>\<open>content\<close>, \<^verbatim>\<open>parts\<close>,
  \<^verbatim>\<open>text\<close>, \<^verbatim>\<open>similarWebsites\<close>. Reading a property of \<^verbatim>\<open>null\<close> or
  \<^verbatim>\<open>undefined\<close> throws a TypeError; a missing property reads as \<^verbatim>\<open>undefined\<close>;
  strings and arrays have a \<^verbatim>\<open>length\<close> and a first element.
\<close>

fun js_get :: "jsval \<Rightarrow> string \<Rightarrow> js_error + jsval" where
  "js_get JUndefined k = Inl (null_read_error ''undefined'' k)"
| "js_get JNull k = Inl (null_read_error ''null'' k)"
| "js_get (JBool b) k = Inr JUndefined"
| "js_get (JNum r) k = Inr JUndefined"
| "js_get (JStr s) k =
     (if k = ''length'' then Inr (JNum (of_nat (length s)))
      else if k = ''0'' then (case s of [] \<Rightarrow> Inr JUndefined | c # cs \<Rightarrow> Inr (JStr [c]))
      else Inr JUndefined)"
| "js_get (JArr xs) k =
     (if k = ''length'' then Inr (JNum (of_nat (length xs)))
      else if k = ''0'' then (case xs of [] \<Rightarrow> Inr JUndefined | x # rest \<Rightarrow> Inr x)
      else Inr JUndefined)"
| "js_get (JObj kvs) k =
     (case map_of kvs k of None \<Rightarrow> Inr JUndefined | Some v \<Rightarrow> Inr v)"

section \<open>The host: language runtime, network and browser\<close>

record request =
  req_url :: string
  req_method :: string
  req_headers :: "(string \<times> string) list"
  req_body :: string

text \<open>
  A response carries its status and its body; reading the body (\<^verbatim>\<open>text()\<close>,
  \<^verbatim>\<open>json()\<close>) can itself fail, which rejects the promise. \<^verbatim>\<open>fetch\<close> either rejects
  (network-level failure) or resolves with a response, whatever its status.
\<close>

record response =
  resp_status :: nat
  resp_body :: "js_error + string"

datatype fetch_outcome = Rejected js_error | Responded response

text \<open>\<^verbatim>\<open>response.ok\<close>: the status is in the range 200 to 299.\<close>

definition resp_ok :: "response \<Rightarrow> bool" where
  "resp_ok r = (200 \<le> resp_status r \<and> resp_status r \<le> 299)"

text \<open>
  The tab registry. A tab descriptor optionally carries a URL. The global \<^verbatim>\<open>chrome\<close>
  may be undeclared (reading it throws a ReferenceError), or bound to a value that is
  falsy or an object; \<^verbatim>\<open>chrome.tabs\<close> and \<^verbatim>\<open>chrome.tabs.query\<close> may each be missing.
  A present \<^verbatim>\<open>query\<close> calls its callback once, with the matching tabs or with
  \<^verbatim>\<open>undefined\<close>.
\<close>

datatype tab = Tab (tab_url: "string option")

datatype tabs_api = TabsApi (tabs_query: "tab list option option")

datatype chrome_object = ChromeObject (chrome_tabs: "tabs_api option")

datatype chrome_global = ChromeUndeclared | ChromeBound "chrome_object option"

text \<open>
  What the script calls and does not define. \<^verbatim>\<open>JSON.parse\<close> on a string throws a
  SyntaxError or returns the decoded value. \<open>ToString\<close> is the language's string
  conversion of numbers, arrays and objects, \<open>ToNumber_gt0\<close> its comparison
  \<^verbatim>\<open>v > 0\<close> for strings, arrays and objects; both can throw on an object.
\<close>

record host =
  JSON_parse :: "string \<Rightarrow> js_error + jsval"
  JSON_stringify :: "jsval \<Rightarrow> string"
  ToString :: "jsval \<Rightarrow> js_error + string"
  ToNumber_gt0 :: "jsval \<Rightarrow> js_error + bool"
  fetch :: "request \<Rightarrow> fetch_outcome"
  chrome :: chrome_global

text \<open>String conversion, as a template literal and \<^verbatim>\<open>JSON.parse\<close> apply it.\<close>

definition js_to_string :: "host \<Rightarrow> jsval \<Rightarrow> js_error + string" where
  "js_to_string h v =
     (case v of
        JStr s \<Rightarrow> Inr s
      | JUndefined \<Rightarrow> Inr ''undefined''
      | JNull \<Rightarrow> Inr ''null''
      | JBool b \<Rightarrow> Inr (if b then ''true'' else ''false'')
      | _ \<Rightarrow> ToString h v)"

text \<open>The comparison \<^verbatim>\<open>v > 0\<close>.\<close>

definition js_gt0 :: "host \<Rightarrow> jsval \<Rightarrow> js_error + bool" where
  "js_gt0 h v =
     (case v of
        JNum r \<Rightarrow> Inr (0 < r)
      | JUndefined \<Rightarrow> Inr False
      | JNull \<Rightarrow> Inr False
      | JBool b \<Rightarrow> Inr b
      | _ \<Rightarrow> ToNumber_gt0 h v)"

text \<open>A status code in a template literal: its decimal digits.\<close>

definition digit_char :: "nat \<Rightarrow> char" where
  "digit_char d =
     (if d = 0 then CHR ''0'' else if d = 1 then CHR ''1'' else if d = 2 then CHR ''2''
      else if d = 3 then CHR ''3'' else if d = 4 then CHR ''4'' else if d = 5 then CHR ''5''
      else if d = 6 then CHR ''6'' else if d = 7 then CHR ''7'' else if d = 8 then CHR ''8''
      else CHR ''9'')"

fun show_nat :: "nat \<Rightarrow> string" where
  "show_nat n =
     (if n < 10 then [digit_char n] else show_nat (n div 10) @ [digit_char (n mod 10)])"

declare show_nat.simps [simp del]

section \<open>The page and what the script does to the world\<close>

text \<open>
  Console arguments, and the observable calls: the network request, the reads of the
  response body, \<^verbatim>\<open>JSON.parse\<close>, and the console.
\<close>

datatype logarg =
    LStr string
  | LNum nat
  | LVal jsval
  | LErr js_error
  | LTabs "tab list option"

datatype event =
    CallFetch request
  | CallText
  | CallJson
  | CallParse string
  | ConsoleError "logarg list"
  | ConsoleWarn "logarg list"

record anchor =
  href :: string
  link_text :: string
  link_target :: string
  link_classes :: "string list"
  link_title :: string

record list_item =
  item_classes :: "string list"
  item_children :: "anchor list"

text \<open>
  The four elements the script looks up at load time (\<^verbatim>\<open>currentSite\<close>,
  \<^verbatim>\<open>similarSitesList\<close>, \<^verbatim>\<open>message\<close>, \<^verbatim>\<open>loader\<close>), taken to exist in the popup's
  markup, with the fields the script writes, and the calls made so far, oldest first.
\<close>

record popup =
  currentSite_text :: string
  currentSite_title :: string
  list_items :: "list_item list"
  message_text :: string
  message_display :: string
  loader_display :: string
  trace :: "event list"

definition emit :: "event \<Rightarrow> popup \<Rightarrow> popup" where
  "emit e s = s\<lparr>trace := trace s @ [e]\<rparr>"

section \<open>Tab Locator: \<^verbatim>\<open>getCurrentTabUrl\<close>\<close>

text \<open>
  The promise either rejects (the executor threw) or resolves with a URL or \<^verbatim>\<open>null\<close>.
  The branch taken when \<^verbatim>\<open>chrome && chrome.tabs && chrome.tabs.query\<close> is falsy logs and
  resolves with a placeholder URL.
\<close>

definition no_capability :: "popup \<Rightarrow> (js_error + string option) \<times> popup" where
  "no_capability s =
     (Inr (Some ''https://example.com''),
      emit (ConsoleError
        [LStr ''chrome.tabs.query is not available. Are you running this in an extension popup?'']) s)"

definition query_callback :: "tab list option \<Rightarrow> popup \<Rightarrow> (js_error + string option) \<times> popup" where
  "query_callback tabs s =
     (case tabs of
        Some (t # rest) \<Rightarrow>
          (case tab_url t of
             Some u \<Rightarrow>
               if u \<noteq> [] then (Inr (Some u), s)
               else (Inr None, emit (ConsoleError [LStr ''Could not get current tab URL. Tabs:'', LTabs tabs]) s)
           | None \<Rightarrow>
               (Inr None, emit (ConsoleError [LStr ''Could not get current tab URL. Tabs:'', LTabs tabs]) s))
      | _ \<Rightarrow> (Inr None, emit (ConsoleError [LStr ''Could not get current tab URL. Tabs:'', LTabs tabs]) s))"

definition getCurrentTabUrl :: "host \<Rightarrow> popup \<Rightarrow> (js_error + string option) \<times> popup" where
  "getCurrentTabUrl h s =
     (case chrome h of
        ChromeUndeclared \<Rightarrow> (Inl (JsError ''ReferenceError'' ''chrome is not defined''), s)
      | ChromeBound None \<Rightarrow> no_capability s
      | ChromeBound (Some c) \<Rightarrow>
          (case chrome_tabs c of
             None \<Rightarrow> no_capability s
           | Some api \<Rightarrow>
               (case tabs_query api of
                  None \<Rightarrow> no_capability s
                | Some tabs \<Rightarrow> query_callback tabs s)))"

section \<open>Similarity Client: \<^verbatim>\<open>fetchSimilarSites\<close>\<close>

subsection \<open>The request\<close>

definition apiKey :: string where
  "apiKey = []"

definition geminiApiUrl :: string where
  "geminiApiUrl =
     ''https://generativelanguage.googleapis.com/v1beta/models/gemini-2.0-flash:generateContent?key=''
     @ apiKey"

definition prompt_head :: string where
  \<open>prompt_head = ''List up to 5 websites that are functionally similar or offer similar content to "''\<close>

definition prompt_tail :: string where
  \<open>prompt_tail = ''". Consider the primary purpose and audience of the given URL. Provide your answer ONLY as a JSON object with a single key "similarWebsites" whose value is an array of strings, where each string is a fully qualified URL. For example: {"similarWebsites": ["https://example.com", "https://another.example.com"]}. If you cannot find any similar websites, return an empty array for "similarWebsites".''\<close>

definition build_prompt :: "host \<Rightarrow> jsval \<Rightarrow> js_error + string" where
  "build_prompt h siteUrl =
     (case js_to_string h siteUrl of
        Inl e \<Rightarrow> Inl e
      | Inr u \<Rightarrow> Inr (prompt_head @ u @ prompt_tail))"

definition build_payload :: "string \<Rightarrow> jsval" where
  "build_payload prompt =
     JObj [
       (''contents'', JArr [JObj [(''parts'', JArr [JObj [(''text'', JStr prompt)]])]]),
       (''generationConfig'', JObj [
          (''responseMimeType'', JStr ''application/json''),
          (''responseSchema'', JObj [
             (''type'', JStr ''OBJECT''),
             (''properties'', JObj [
                (''similarWebsites'', JObj [
                   (''type'', JStr ''ARRAY''),
                   (''items'', JObj [
                      (''type'', JStr ''STRING''),
                      (''description'',
                       JStr ''A URL of a similar website (e.g., https://www.example.com)'')])])]),
             (''required'', JArr [JStr ''similarWebsites''])])])]"

definition build_request :: "host \<Rightarrow> jsval \<Rightarrow> request" where
  "build_request h payload =
     \<lparr>req_url = geminiApiUrl,
      req_method = ''POST'',
      req_headers = [(''Content-Type'', ''application/json'')],
      req_body = JSON_stringify h payload\<rparr>"

subsection \<open>Envelope check (the condition on \<^verbatim>\<open>result.candidates[0].content.parts[0].text\<close>)\<close>

fun get_path :: "jsval \<Rightarrow> string list \<Rightarrow> js_error + jsval" where
  "get_path v [] = Inr v"
| "get_path v (k # ks) = (case js_get v k of Inl e \<Rightarrow> Inl e | Inr w \<Rightarrow> get_path w ks)"

text \<open>\<^verbatim>\<open>a && b\<close>: \<open>b\<close> is evaluated only when \<open>a\<close> is truthy.\<close>

definition js_and :: "(js_error + jsval) \<Rightarrow> (js_error + jsval) \<Rightarrow> js_error + jsval" where
  "js_and a b = (case a of Inl e \<Rightarrow> Inl e | Inr v \<Rightarrow> if truthy v then b else Inr v)"

definition gt0_of :: "host \<Rightarrow> (js_error + jsval) \<Rightarrow> js_error + jsval" where
  "gt0_of h a =
     (case a of
        Inl e \<Rightarrow> Inl e
      | Inr v \<Rightarrow> (case js_gt0 h v of Inl e \<Rightarrow> Inl e | Inr b \<Rightarrow> Inr (JBool b)))"

definition envelope_condition :: "host \<Rightarrow> jsval \<Rightarrow> js_error + jsval" where
  "envelope_condition h result =
     js_and (get_path result [''candidates''])
    (js_and (gt0_of h (get_path result [''candidates'', ''length'']))
    (js_and (get_path result [''candidates'', ''0'', ''content''])
    (js_and (get_path result [''candidates'', ''0'', ''content'', ''parts''])
    (js_and (gt0_of h (get_path result [''candidates'', ''0'', ''content'', ''parts'', ''length'']))
            (get_path result [''candidates'', ''0'', ''content'', ''parts'', ''0'', ''text''])))))"

text \<open>
  The text handed to the inner parse, \<open>None\<close> when the condition is falsy, an error
  when evaluating the condition throws.
\<close>

definition envelope_text :: "host \<Rightarrow> jsval \<Rightarrow> js_error + jsval option" where
  "envelope_text h result =
     (case envelope_condition h result of
        Inl e \<Rightarrow> Inl e
      | Inr c \<Rightarrow>
          if truthy c then
            (case get_path result [''candidates'', ''0'', ''content'', ''parts'', ''0'', ''text''] of
               Inl e \<Rightarrow> Inl e
             | Inr jsonText \<Rightarrow> Inr (Some jsonText))
          else Inr None)"

text \<open>
  The same check read along the path, each property read once: what remains of the check
  from the first part, from the parts, from the content, from the first candidate, from
  the candidates and from the body.
\<close>

definition text_from_part :: "jsval \<Rightarrow> js_error + jsval option" where
  "text_from_part part =
     (case js_get part ''text'' of
        Inl e \<Rightarrow> Inl e
      | Inr t \<Rightarrow> Inr (if truthy t then Some t else None))"

definition first_if_any ::
  "host \<Rightarrow> jsval \<Rightarrow> (jsval \<Rightarrow> js_error + jsval option) \<Rightarrow> js_error + jsval option" where
  "first_if_any h xs k =
     (if \<not> truthy xs then Inr None
      else
        (case js_get xs ''length'' of
           Inl e \<Rightarrow> Inl e
         | Inr n \<Rightarrow>
             (case js_gt0 h n of
                Inl e \<Rightarrow> Inl e
              | Inr positive \<Rightarrow>
                  if \<not> positive then Inr None
                  else (case js_get xs ''0'' of Inl e \<Rightarrow> Inl e | Inr x \<Rightarrow> k x))))"

definition text_from_content :: "host \<Rightarrow> jsval \<Rightarrow> js_error + jsval option" where
  "text_from_content h content =
     (if \<not> truthy content then Inr None
      else
        (case js_get content ''parts'' of
           Inl e \<Rightarrow> Inl e
         | Inr parts \<Rightarrow> first_if_any h parts text_from_part))"

definition text_from_candidate :: "host \<Rightarrow> jsval \<Rightarrow> js_error + jsval option" where
  "text_from_candidate h candidate =
     (case js_get candidate ''content'' of
        Inl e \<Rightarrow> Inl e
      | Inr content \<Rightarrow> text_from_content h content)"

definition text_from_result :: "host \<Rightarrow> jsval \<Rightarrow> js_error + jsval option" where
  "text_from_result h result =
     (case js_get result ''candidates'' of
        Inl e \<Rightarrow> Inl e
      | Inr candidates \<Rightarrow> first_if_any h candidates (text_from_candidate h))"

subsection \<open>Element filter\<close>

text \<open>
  \<^verbatim>\<open>trim\<close> removes white space and line terminators at both ends; of the code points a
  character of this model can hold these are 9 to 13, 32 and 160.
\<close>

definition js_whitespace :: "char \<Rightarrow> bool" where
  "js_whitespace c =
     (c = CHR 0x09 \<or> c = CHR 0x0A \<or> c = CHR 0x0B \<or> c = CHR 0x0C \<or> c = CHR 0x0D
      \<or> c = CHR 0x20 \<or> c = CHR 0xA0)"

definition trim :: "string \<Rightarrow> string" where
  "trim s = rev (dropWhile js_whitespace (rev (dropWhile js_whitespace s)))"

definition startsWith :: "string \<Rightarrow> string \<Rightarrow> bool" where
  "startsWith s p = (take (length p) s = p)"

text \<open>
  The \<^verbatim>\<open>filter\<close> call: an element is kept when it is a string, its trimmed form is not
  empty, and it starts with one of the two schemes.
\<close>

fun filter_sites :: "jsval list \<Rightarrow> string list" where
  "filter_sites [] = []"
| "filter_sites (JStr url # rest) =
     (if trim url \<noteq> [] \<and> (startsWith url ''http://'' \<or> startsWith url ''https://'')
      then url # filter_sites rest else filter_sites rest)"
| "filter_sites (v # rest) = filter_sites rest"

subsection \<open>Inner parse (the inner \<^verbatim>\<open>try\<close>/\<^verbatim>\<open>catch\<close>)\<close>

definition parse_failed :: "js_error \<Rightarrow> jsval \<Rightarrow> popup \<Rightarrow> string list \<times> popup" where
  "parse_failed e jsonText s =
     ([], emit (ConsoleError [LStr ''Failed to parse JSON from API response:'', LErr e,
                              LStr ''Raw text was:'', LVal jsonText]) s)"

definition isArray_of :: "(js_error + jsval) \<Rightarrow> js_error + jsval" where
  "isArray_of a =
     (case a of
        Inl e \<Rightarrow> Inl e
      | Inr (JArr xs) \<Rightarrow> Inr (JBool True)
      | Inr v \<Rightarrow> Inr (JBool False))"

definition shape_condition :: "jsval \<Rightarrow> js_error + jsval" where
  "shape_condition parsedJson =
     js_and (Inr parsedJson)
    (js_and (js_get parsedJson ''similarWebsites'')
            (isArray_of (js_get parsedJson ''similarWebsites'')))"

text \<open>\<^verbatim>\<open>parsedJson.similarWebsites.filter(...)\<close>; on a value that is no array the call throws.\<close>

definition filter_call :: "jsval \<Rightarrow> js_error + string list" where
  "filter_call parsedJson =
     (case js_get parsedJson ''similarWebsites'' of
        Inl e \<Rightarrow> Inl e
      | Inr (JArr xs) \<Rightarrow> Inr (filter_sites xs)
      | Inr v \<Rightarrow> Inl (JsError ''TypeError'' ''parsedJson.similarWebsites.filter is not a function''))"

definition parse_sites :: "host \<Rightarrow> jsval \<Rightarrow> popup \<Rightarrow> string list \<times> popup" where
  "parse_sites h jsonText s =
     (case js_to_string h jsonText of
        Inl e \<Rightarrow> parse_failed e jsonText s
      | Inr txt \<Rightarrow>
          (case JSON_parse h txt of
             Inl e \<Rightarrow> parse_failed e jsonText (emit (CallParse txt) s)
           | Inr parsedJson \<Rightarrow>
               (case shape_condition parsedJson of
                  Inl e \<Rightarrow> parse_failed e jsonText (emit (CallParse txt) s)
                | Inr c \<Rightarrow>
                    if truthy c then
                      (case filter_call parsedJson of
                         Inl e \<Rightarrow> parse_failed e jsonText (emit (CallParse txt) s)
                       | Inr sites \<Rightarrow> (sites, emit (CallParse txt) s))
                    else
                      ([], emit (ConsoleWarn
                             [LStr (''Parsed JSON does not have the expected '' @ [quote_char]
                                    @ ''similarWebsites'' @ [quote_char] @ '' array structure:''),
                              LVal parsedJson])
                            (emit (CallParse txt) s)))))"

subsection \<open>The outer \<^verbatim>\<open>try\<close> block and the function\<close>

definition failed_status :: "response \<Rightarrow> popup \<Rightarrow> (js_error + string list) \<times> popup" where
  "failed_status r s =
     (case resp_body r of
        Inl e \<Rightarrow> (Inl e, emit CallText s)
      | Inr errorBody \<Rightarrow>
          (Inl (JsError ''Error''
                  (''API request failed with status '' @ show_nat (resp_status r)
                   @ ''. Details: '' @ errorBody)),
           emit (ConsoleError [LStr ''API request failed:'', LNum (resp_status r), LStr errorBody])
             (emit CallText s)))"

text \<open>\<^verbatim>\<open>response.json()\<close>: the body is read and decoded.\<close>

definition response_json :: "host \<Rightarrow> response \<Rightarrow> js_error + jsval" where
  "response_json h r = (case resp_body r of Inl e \<Rightarrow> Inl e | Inr b \<Rightarrow> JSON_parse h b)"

definition handle_result :: "host \<Rightarrow> jsval \<Rightarrow> popup \<Rightarrow> (js_error + string list) \<times> popup" where
  "handle_result h result s =
     (case envelope_text h result of
        Inl e \<Rightarrow> (Inl e, s)
      | Inr None \<Rightarrow>
          (Inr [], emit (ConsoleWarn
                     [LStr ''No valid candidates or content parts in API response:'', LVal result]) s)
      | Inr (Some jsonText) \<Rightarrow>
          (case parse_sites h jsonText s of (sites, s') \<Rightarrow> (Inr sites, s')))"

definition try_block :: "host \<Rightarrow> jsval \<Rightarrow> popup \<Rightarrow> (js_error + string list) \<times> popup" where
  "try_block h payload s =
     (case fetch h (build_request h payload) of
        Rejected e \<Rightarrow> (Inl e, emit (CallFetch (build_request h payload)) s)
      | Responded r \<Rightarrow>
          if \<not> resp_ok r then failed_status r (emit (CallFetch (build_request h payload)) s)
          else
            (case response_json h r of
               Inl e \<Rightarrow> (Inl e, emit CallJson (emit (CallFetch (build_request h payload)) s))
             | Inr result \<Rightarrow>
                 handle_result h result
                   (emit CallJson (emit (CallFetch (build_request h payload)) s))))"

text \<open>The outer \<^verbatim>\<open>catch\<close>: log, write the message element, return the empty array.\<close>

definition catch_block :: "js_error \<Rightarrow> popup \<Rightarrow> (js_error + string list) \<times> popup" where
  "catch_block error s =
     (Inr [],
      (emit (ConsoleError [LStr ''Error fetching similar sites:'', LErr error]) s)
        \<lparr>message_text := ''Error: '' @ message error\<rparr>)"

text \<open>
  The result is \<open>Inr\<close> the returned array, or \<open>Inl\<close> an error that leaves the function
  (a rejected promise).
\<close>

definition fetchSimilarSites :: "host \<Rightarrow> jsval \<Rightarrow> popup \<Rightarrow> (js_error + string list) \<times> popup" where
  "fetchSimilarSites h siteUrl s =
     (if \<not> truthy siteUrl then (Inr [], s)
      else
        (case build_prompt h siteUrl of
           Inl e \<Rightarrow> (Inl e, s)
         | Inr prompt \<Rightarrow>
             (case try_block h (build_payload prompt) s of
                (Inl error, s') \<Rightarrow> catch_block error s'
              | (Inr sites, s') \<Rightarrow> (Inr sites, s'))))"

section \<open>Result Presenter: \<^verbatim>\<open>displaySimilarSites\<close>\<close>

definition site_link :: "string \<Rightarrow> anchor" where
  "site_link site =
     \<lparr>href = site,
      link_text = site,
      link_target = ''_blank'',
      link_classes = [''site-link'', ''text-blue-600'', ''hover:underline'', ''block'', ''truncate''],
      link_title = site\<rparr>"

definition site_item :: "string \<Rightarrow> list_item" where
  "site_item site =
     \<lparr>item_classes = [''site-item'', ''p-2'', ''hover:bg-gray-100'', ''rounded-md''],
      item_children = [site_link site]\<rparr>"

text \<open>The \<^verbatim>\<open>forEach\<close> loop: one list item appended per site.\<close>

fun append_sites :: "string list \<Rightarrow> popup \<Rightarrow> popup" where
  "append_sites [] s = s"
| "append_sites (site # rest) s =
     append_sites rest (s\<lparr>list_items := list_items s @ [site_item site]\<rparr>)"

definition no_results_message :: string where
  "no_results_message = ''No similar sites found or API error.''"

definition displaySimilarSites :: "string list \<Rightarrow> popup \<Rightarrow> popup" where
  "displaySimilarSites sites s =
     (if length sites = 0 then s\<lparr>list_items := [], message_text := no_results_message\<rparr>
      else append_sites sites (s\<lparr>list_items := [], message_display := ''none''\<rparr>))"

section \<open>The full flow: \<^verbatim>\<open>main\<close>\<close>

definition main_start :: "popup \<Rightarrow> popup" where
  "main_start s =
     s\<lparr>loader_display := ''block'', message_text := ''Fetching current URL...'', list_items := []\<rparr>"

definition main_with_url :: "host \<Rightarrow> string \<Rightarrow> popup \<Rightarrow> popup" where
  "main_with_url h url s =
     (case fetchSimilarSites h (JStr url)
             (s\<lparr>currentSite_text := url, currentSite_title := url,
                message_text := ''Finding similar sites...''\<rparr>) of
        (Inr similarSites, s') \<Rightarrow> displaySimilarSites similarSites (s'\<lparr>loader_display := ''none''\<rparr>)
      | (Inl error, s') \<Rightarrow>
          (emit (ConsoleError [LStr ''Error in main execution flow:'', LErr error]) s')
            \<lparr>loader_display := ''none'',
             message_text := ''Failed to load suggestions. See console for details.''\<rparr>)"

definition main_without_url :: "popup \<Rightarrow> popup" where
  "main_without_url s =
     s\<lparr>loader_display := ''none'', currentSite_text := ''N/A'',
       message_text :=
         ''Could not determine the current site URL. Ensure you are on a valid webpage.''\<rparr>"

text \<open>
  \<^verbatim>\<open>main\<close> awaits \<^verbatim>\<open>getCurrentTabUrl\<close> outside any \<^verbatim>\<open>try\<close>: its rejection is
  \<^verbatim>\<open>main\<close>'s.
\<close>

definition main :: "host \<Rightarrow> popup \<Rightarrow> (js_error + unit) \<times> popup" where
  "main h s =
     (case getCurrentTabUrl h (main_start s) of
        (Inl e, s') \<Rightarrow> (Inl e, s')
      | (Inr None, s') \<Rightarrow> (Inr (), main_without_url s')
      | (Inr (Some url), s') \<Rightarrow>
          if url \<noteq> [] then (Inr (), main_with_url h url s') else (Inr (), main_without_url s'))"

section \<open>Notions used to state the properties\<close>

text \<open>The request sent for a page URL, and the state right after it has been sent.\<close>

definition the_request :: "host \<Rightarrow> string \<Rightarrow> request" where
  "the_request h url = build_request h (build_payload (prompt_head @ url @ prompt_tail))"

definition after_fetch :: "host \<Rightarrow> string \<Rightarrow> popup \<Rightarrow> popup" where
  "after_fetch h url s = emit (CallFetch (the_request h url)) s"

text \<open>The state in which \<^verbatim>\<open>main\<close> calls \<^verbatim>\<open>fetchSimilarSites\<close>.\<close>

definition main_prepared :: "host \<Rightarrow> string \<Rightarrow> popup \<Rightarrow> popup" where
  "main_prepared h url s =
     (snd (getCurrentTabUrl h (main_start s)))
       \<lparr>currentSite_text := url, currentSite_title := url,
        message_text := ''Finding similar sites...''\<rparr>"

text \<open>
  The tab-query capability of a bound \<^verbatim>\<open>chrome\<close>: what \<^verbatim>\<open>query\<close> answers, if it
  can be called at all; and the URL of a usable tab among the answer, if any.
\<close>

definition available_query :: "chrome_object option \<Rightarrow> tab list option option" where
  "available_query c =
     (case c of
        None \<Rightarrow> None
      | Some obj \<Rightarrow> (case chrome_tabs obj of None \<Rightarrow> None | Some api \<Rightarrow> tabs_query api))"

definition usable_url :: "tab list option \<Rightarrow> string option" where
  "usable_url tabs =
     (case tabs of
        Some (t # rest) \<Rightarrow>
          (case tab_url t of Some u \<Rightarrow> if u \<noteq> [] then Some u else None | None \<Rightarrow> None)
      | _ \<Rightarrow> None)"

text \<open>
  The specification's element rule, in its own words: a non-empty string beginning with
  \<^verbatim>\<open>http://\<close> or \<^verbatim>\<open>https://\<close>.
\<close>

definition spec_is_site :: "jsval \<Rightarrow> bool" where
  "spec_is_site v =
     (case v of
        JStr u \<Rightarrow> u \<noteq> [] \<and> (prefix ''http://'' u \<or> prefix ''https://'' u)
      | _ \<Rightarrow> False)"

text \<open>
  The specification's envelope rule, in its own words: the body contains at least one
  candidate whose content holds at least one part with a non-empty text field.
\<close>

definition spec_part_has_text :: "jsval \<Rightarrow> bool" where
  "spec_part_has_text part =
     (case js_get part ''text'' of Inr (JStr t) \<Rightarrow> t \<noteq> [] | _ \<Rightarrow> False)"

definition spec_candidate_has_text :: "jsval \<Rightarrow> bool" where
  "spec_candidate_has_text candidate =
     (case get_path candidate [''content'', ''parts''] of
        Inr (JArr parts) \<Rightarrow> list_ex spec_part_has_text parts
      | _ \<Rightarrow> False)"

definition spec_envelope_has_text :: "jsval \<Rightarrow> bool" where
  "spec_envelope_has_text result =
     (case js_get result ''candidates'' of
        Inr (JArr candidates) \<Rightarrow> list_ex spec_candidate_has_text candidates
      | _ \<Rightarrow> False)"

text \<open>
  The envelope rule as the client applies it, shape by shape. Only the first candidate
  and the first part of its content count. The verdict is the text to parse when that part
  is an object with a truthy \<^verbatim>\<open>text\<close>, and no data when a field on the way is missing
  or falsy, an array on the way is empty, or a value on the way has another type. A body,
  first candidate or first part that is \<^verbatim>\<open>null\<close>, and an object standing in for an
  array, are not covered.
\<close>

datatype verdict = ParseText jsval | NoData | NotCovered

fun part_verdict :: "jsval \<Rightarrow> verdict" where
  "part_verdict (JObj p) =
     (case map_of p ''text'' of
        None \<Rightarrow> NoData
      | Some t \<Rightarrow> if truthy t then ParseText t else NoData)"
| "part_verdict JNull = NotCovered"
| "part_verdict JUndefined = NotCovered"
| "part_verdict v = NoData"

fun parts_verdict :: "jsval \<Rightarrow> verdict" where
  "parts_verdict (JArr []) = NoData"
| "parts_verdict (JArr (part # rest)) = part_verdict part"
| "parts_verdict (JObj kvs) = NotCovered"
| "parts_verdict v = NoData"

fun content_verdict :: "jsval \<Rightarrow> verdict" where
  "content_verdict (JObj ct) =
     (case map_of ct ''parts'' of None \<Rightarrow> NoData | Some parts \<Rightarrow> parts_verdict parts)"
| "content_verdict v = NoData"

fun candidate_verdict :: "jsval \<Rightarrow> verdict" where
  "candidate_verdict (JObj c) =
     (case map_of c ''content'' of None \<Rightarrow> NoData | Some content \<Rightarrow> content_verdict content)"
| "candidate_verdict JNull = NotCovered"
| "candidate_verdict JUndefined = NotCovered"
| "candidate_verdict v = NoData"

fun candidates_verdict :: "jsval \<Rightarrow> verdict" where
  "candidates_verdict (JArr []) = NoData"
| "candidates_verdict (JArr (candidate # rest)) = candidate_verdict candidate"
| "candidates_verdict (JObj kvs) = NotCovered"
| "candidates_verdict v = NoData"

fun envelope_verdict :: "jsval \<Rightarrow> verdict" where
  "envelope_verdict (JObj kvs) =
     (case map_of kvs ''candidates'' of
        None \<Rightarrow> NoData
      | Some candidates \<Rightarrow> candidates_verdict candidates)"
| "envelope_verdict JNull = NotCovered"
| "envelope_verdict JUndefined = NotCovered"
| "envelope_verdict v = NoData"

definition verdict_text :: "verdict \<Rightarrow> jsval option" where
  "verdict_text v = (case v of ParseText t \<Rightarrow> Some t | NoData \<Rightarrow> None | NotCovered \<Rightarrow> None)"



text \<open>The message element is displayed: its inline style does not hide it.\<close>

definition message_shown :: "popup \<Rightarrow> bool" where
  "message_shown s = (message_display s \<noteq> ''none'')"

section \<open>Example hosts\<close>

text \<open>
  A host for the examples: \<^verbatim>\<open>JSON.parse\<close> decodes the listed texts and rejects every
  other text, \<^verbatim>\<open>fetch\<close> answers every request with one outcome; the conversions the
  examples never reach answer with fixed values.
\<close>

definition test_host :: "(string \<times> jsval) list \<Rightarrow> fetch_outcome \<Rightarrow> chrome_global \<Rightarrow> host" where
  "test_host decoded outcome ch =
     \<lparr>JSON_parse = (\<lambda>t. case map_of decoded t of
                           Some v \<Rightarrow> Inr v
                         | None \<Rightarrow> Inl (JsError ''SyntaxError'' ''Unexpected token'')),
      JSON_stringify = (\<lambda>v. ''{}''),
      ToString = (\<lambda>v. Inr ''[object Object]''),
      ToNumber_gt0 = (\<lambda>v. Inr False),
      fetch = (\<lambda>req. outcome),
      chrome = ch\<rparr>"

definition blank_popup :: popup where
  "blank_popup =
     \<lparr>currentSite_text = [], currentSite_title = [], list_items = [], message_text = [],
      message_display = [], loader_display = [], trace = []\<rparr>"

definition page_url :: string where
  "page_url = ''https://example.org/page''"

definition chrome_with_tabs :: "tab list option \<Rightarrow> chrome_global" where
  "chrome_with_tabs tabs = ChromeBound (Some (ChromeObject (Some (TabsApi (Some tabs)))))"

definition active_tab_chrome :: chrome_global where
  "active_tab_chrome = chrome_with_tabs (Some [Tab (Some ''https://example.org/page'')])"

definition ok_response :: "string \<Rightarrow> fetch_outcome" where
  "ok_response b = Responded \<lparr>resp_status = 200, resp_body = Inr b\<rparr>"

text \<open>The JSON text of a one-candidate, one-part envelope around an inner text, and its value.\<close>

definition json_escape :: "string \<Rightarrow> string" where
  "json_escape t =
     concat (map (\<lambda>c. if c = CHR 0x22 \<or> c = CHR 0x5C then [CHR 0x5C, c] else [c]) t)"

definition envelope_json :: "string \<Rightarrow> string" where
  \<open>envelope_json inner =
     ''{"candidates":[{"content":{"parts":[{"text":"'' @ json_escape inner @ ''"}]}}]}''\<close>

definition envelope_value :: "jsval \<Rightarrow> jsval" where
  "envelope_value t =
     JObj [(''candidates'',
            JArr [JObj [(''content'', JObj [(''parts'', JArr [JObj [(''text'', t)]])])]])]"

text \<open>Hosts without the tab-query capability, and with a query that finds no tab.\<close>

definition no_capability_host :: host where
  "no_capability_host = test_host [] (Rejected (JsError ''TypeError'' ''Failed to fetch''))
     (ChromeBound (Some (ChromeObject None)))"

definition no_tabs_host :: host where
  "no_tabs_host = test_host [] (Rejected (JsError ''TypeError'' ''Failed to fetch''))
     (chrome_with_tabs (Some []))"

text \<open>A service answering with status 500.\<close>

definition failing_host :: host where
  "failing_host =
     test_host [] (Responded \<lparr>resp_status = 500, resp_body = Inr ''Internal Server Error''\<rparr>)
       active_tab_chrome"

text \<open>A service answering with an empty list of sites.\<close>

definition empty_json :: string where
  \<open>empty_json = ''{"similarWebsites":[]}''\<close>


text \<open>A service answering with prose where JSON was asked for.\<close>

definition prose_text :: string where
  "prose_text = ''Sure! Here are some similar websites.''"

definition prose_host :: host where
  "prose_host =
     test_host [(envelope_json prose_text, envelope_value (JStr prose_text))]
       (ok_response (envelope_json prose_text)) active_tab_chrome"

text \<open>A service answering with two sites.\<close>

definition two_sites_json :: string where
  \<open>two_sites_json = ''{"similarWebsites":["https://a.com","https://b.com"]}''\<close>

definition two_sites_value :: jsval where
  "two_sites_value =
     JObj [(''similarWebsites'', JArr [JStr ''https://a.com'', JStr ''https://b.com''])]"

definition two_sites_host :: host where
  "two_sites_host =
     test_host [(envelope_json two_sites_json, envelope_value (JStr two_sites_json)),
                (two_sites_json, two_sites_value)]
       (ok_response (envelope_json two_sites_json)) active_tab_chrome"

text \<open>
  A service answering with a mixed array: other schemes, a number, empty and blank
  strings, \<^verbatim>\<open>null\<close>, a repeated URL, and six valid entries in all.
\<close>

definition mixed_json :: string where
  \<open>mixed_json = ''{"similarWebsites":["ftp://x.com","https://ok.com",5,"","https://ok.com","http://a.org","  ","https://b.org",null,"https://c.org"," https://pad.org","https://d.org"]}''\<close>

definition mixed_elements :: "jsval list" where
  "mixed_elements =
     [JStr ''ftp://x.com'', JStr ''https://ok.com'', JNum 5, JStr [], JStr ''https://ok.com'',
      JStr ''http://a.org'', JStr ''  '', JStr ''https://b.org'', JNull, JStr ''https://c.org'',
      JStr '' https://pad.org'', JStr ''https://d.org'']"

definition mixed_host :: host where
  "mixed_host =
     test_host [(envelope_json mixed_json, envelope_value (JStr mixed_json)),
                (mixed_json, JObj [(''similarWebsites'', JArr mixed_elements)])]
       (ok_response (envelope_json mixed_json)) active_tab_chrome"

text \<open>A service whose first candidate is empty and whose second candidate holds the text.\<close>

definition second_candidate_json :: string where
  \<open>second_candidate_json =
     ''{"candidates":[{},{"content":{"parts":[{"text":"'' @ json_escape two_sites_json
     @ ''"}]}}]}''\<close>

definition second_candidate_value :: jsval where
  "second_candidate_value =
     JObj [(''candidates'',
            JArr [JObj [],
                  JObj [(''content'',
                         JObj [(''parts'', JArr [JObj [(''text'', JStr two_sites_json)]])])]])]"

definition second_candidate_host :: host where
  "second_candidate_host =
     test_host [(second_candidate_json, second_candidate_value), (two_sites_json, two_sites_value)]
       (ok_response second_candidate_json) active_tab_chrome"

text \<open>A service answering with an envelope without candidates.\<close>

definition no_candidates_json :: string where
  \<open>no_candidates_json = ''{"candidates":[]}''\<close>

definition no_candidates_host :: host where
  "no_candidates_host =
     test_host [(no_candidates_json, JObj [(''candidates'', JArr [])])]
       (ok_response no_candidates_json) active_tab_chrome"

section \<open>Auxiliary facts\<close>

subsection \<open>Strings and the element filter\<close>

lemma startsWith_prefix: "startsWith s p = prefix p s"
proof
  assume "startsWith s p"
  then have "take (length p) s = p" by (simp add: startsWith_def)
  then show "prefix p s" by (metis take_is_prefix)
next
  assume "prefix p s"
  then obtain zs where "s = p @ zs" by (auto simp: prefix_def)
  then show "startsWith s p" by (simp add: startsWith_def)
qed

lemma scheme_not_blank:
  assumes "startsWith u ''http://'' \<or> startsWith u ''https://''"
  shows "trim u \<noteq> []"
proof -
  from assms obtain r where "u = CHR ''h'' # r"
    by (cases u) (auto simp: startsWith_def)
  then show ?thesis
    by (simp add: trim_def js_whitespace_def)
qed

lemma filter_sites_spec: "map JStr (filter_sites xs) = filter spec_is_site xs"
proof (induction xs rule: filter_sites.induct)
  case 1
  then show ?case by simp
next
  case (2 url rest)
  show ?case
  proof (cases "startsWith url ''http://'' \<or> startsWith url ''https://''")
    case True
    then have "trim url \<noteq> []" by (rule scheme_not_blank)
    moreover from True have "spec_is_site (JStr url)"
      by (auto simp: spec_is_site_def startsWith_prefix)
    ultimately show ?thesis using True 2 by simp
  next
    case False
    then have "\<not> spec_is_site (JStr url)"
      by (auto simp: spec_is_site_def startsWith_prefix)
    then show ?thesis using False 2 by simp
  qed
qed (simp_all add: spec_is_site_def)

subsection \<open>The presenter's loop\<close>

lemma append_sites_items:
  "append_sites sites s = s\<lparr>list_items := list_items s @ map site_item sites\<rparr>"
  by (induction sites arbitrary: s) simp_all

subsection \<open>The paths through \<^verbatim>\<open>fetchSimilarSites\<close>\<close>

lemma fetchSimilarSites_string:
  "url \<noteq> [] \<Longrightarrow>
   fetchSimilarSites h (JStr url) s =
     (case try_block h (build_payload (prompt_head @ url @ prompt_tail)) s of
        (Inl error, s') \<Rightarrow> catch_block error s'
      | (Inr sites, s') \<Rightarrow> (Inr sites, s'))"
  by (simp add: fetchSimilarSites_def build_prompt_def js_to_string_def)

lemma try_block_failed_status:
  "fetch h (the_request h url) = Responded r \<Longrightarrow> \<not> resp_ok r \<Longrightarrow>
   try_block h (build_payload (prompt_head @ url @ prompt_tail)) s =
     failed_status r (after_fetch h url s)"
  by (simp add: try_block_def the_request_def after_fetch_def)

lemma try_block_ok:
  "fetch h (the_request h url) = Responded r \<Longrightarrow> resp_ok r \<Longrightarrow>
   try_block h (build_payload (prompt_head @ url @ prompt_tail)) s =
     (case response_json h r of
        Inl e \<Rightarrow> (Inl e, emit CallJson (after_fetch h url s))
      | Inr result \<Rightarrow> handle_result h result (emit CallJson (after_fetch h url s)))"
  unfolding try_block_def the_request_def after_fetch_def by simp

lemma fetch_ok_result:
  assumes "url \<noteq> []"
    and "fetch h (the_request h url) = Responded r"
    and "resp_ok r"
    and "resp_body r = Inr b"
    and "JSON_parse h b = Inr result"
  shows "fetchSimilarSites h (JStr url) s =
     (case handle_result h result (emit CallJson (after_fetch h url s)) of
        (Inl error, s') \<Rightarrow> catch_block error s'
      | (Inr sites, s') \<Rightarrow> (Inr sites, s'))"
  using assms
  by (simp add: fetchSimilarSites_string try_block_ok response_json_def)

lemma envelope_text_first_part:
  assumes "map_of kvs ''candidates'' = Some (JArr (JObj c # cs))"
    and "map_of c ''content'' = Some (JObj ct)"
    and "map_of ct ''parts'' = Some (JArr (JObj p # ps))"
  shows "envelope_text h (JObj kvs) =
     Inr (case map_of p ''text'' of
            Some t \<Rightarrow> if truthy t then Some t else None
          | None \<Rightarrow> None)"
  using assms
  by (simp add: envelope_text_def envelope_condition_def js_and_def gt0_of_def js_gt0_def
        split: option.splits)

lemma parse_sites_array:
  assumes "js_to_string h jsonText = Inr txt"
    and "JSON_parse h txt = Inr parsedJson"
    and "truthy parsedJson"
    and "js_get parsedJson ''similarWebsites'' = Inr (JArr xs)"
  shows "parse_sites h jsonText s = (filter_sites xs, emit (CallParse txt) s)"
  using assms
  by (simp add: parse_sites_def shape_condition_def js_and_def isArray_of_def filter_call_def)

lemma parse_sites_trace:
  "\<exists>rest. trace (snd (parse_sites h (JStr txt) s)) = trace s @ CallParse txt # rest"
  by (auto simp: parse_sites_def js_to_string_def parse_failed_def emit_def
        split: sum.splits)

subsection \<open>The envelope check\<close>

lemma envelope_text_stepwise: "envelope_text h result = text_from_result h result"
proof -
  note defs = envelope_text_def envelope_condition_def js_and_def gt0_of_def
    text_from_result_def first_if_any_def text_from_candidate_def text_from_content_def
    text_from_part_def
  show ?thesis
  proof (cases "js_get result ''candidates''")
    case (Inl e)
    then show ?thesis by (simp add: defs)
  next
    case f1: (Inr cs)
    show ?thesis
    proof (cases "truthy cs")
      case False
      with f1 show ?thesis by (simp add: defs)
    next
      case f2: True
      show ?thesis
      proof (cases "js_get cs ''length''")
        case (Inl e)
        with f1 f2 show ?thesis by (simp add: defs)
      next
        case f3: (Inr n)
        show ?thesis
        proof (cases "js_gt0 h n")
          case (Inl e)
          with f1 f2 f3 show ?thesis by (simp add: defs)
        next
          case f4: (Inr g)
          show ?thesis
          proof (cases "g")
            case False
            with f1 f2 f3 f4 show ?thesis by (simp add: defs)
          next
            case f5: True
            show ?thesis
            proof (cases "js_get cs ''0''")
              case (Inl e)
              with f1 f2 f3 f4 f5 show ?thesis by (simp add: defs)
            next
              case f6: (Inr c)
              show ?thesis
              proof (cases "js_get c ''content''")
                case (Inl e)
                with f1 f2 f3 f4 f5 f6 show ?thesis by (simp add: defs)
              next
                case f7: (Inr ct)
                show ?thesis
                proof (cases "truthy ct")
                  case False
                  with f1 f2 f3 f4 f5 f6 f7 show ?thesis by (simp add: defs)
                next
                  case f8: True
                  show ?thesis
                  proof (cases "js_get ct ''parts''")
                    case (Inl e)
                    with f1 f2 f3 f4 f5 f6 f7 f8 show ?thesis by (simp add: defs)
                  next
                    case f9: (Inr ps)
                    show ?thesis
                    proof (cases "truthy ps")
                      case False
                      with f1 f2 f3 f4 f5 f6 f7 f8 f9 show ?thesis by (simp add: defs)
                    next
                      case f10: True
                      show ?thesis
                      proof (cases "js_get ps ''length''")
                        case (Inl e)
                        with f1 f2 f3 f4 f5 f6 f7 f8 f9 f10 show ?thesis by (simp add: defs)
                      next
                        case f11: (Inr m)
                        show ?thesis
                        proof (cases "js_gt0 h m")
                          case (Inl e)
                          with f1 f2 f3 f4 f5 f6 f7 f8 f9 f10 f11 show ?thesis by (simp add: defs)
                        next
                          case f12: (Inr k)
                          show ?thesis
                          proof (cases "k")
                            case False
                            with f1 f2 f3 f4 f5 f6 f7 f8 f9 f10 f11 f12 show ?thesis by (simp add: defs)
                          next
                            case f13: True
                            show ?thesis
                            proof (cases "js_get ps ''0''")
                              case (Inl e)
                              with f1 f2 f3 f4 f5 f6 f7 f8 f9 f10 f11 f12 f13 show ?thesis by (simp add: defs)
                            next
                              case f14: (Inr p)
                              show ?thesis
                              proof (cases "js_get p ''text''")
                                case (Inl e)
                                with f1 f2 f3 f4 f5 f6 f7 f8 f9 f10 f11 f12 f13 f14 show ?thesis by (simp add: defs)
                              next
                                case f15: (Inr tx)
                                from f1 f2 f3 f4 f5 f6 f7 f8 f9 f10 f11 f12 f13 f14 f15 show ?thesis by (simp add: defs)
                              qed
                            qed
                          qed
                        qed
                      qed
                    qed
                  qed
                qed
              qed
            qed
          qed
        qed
      qed
    qed
  qed
qed

lemma part_verdict_text:
  "part_verdict part \<noteq> NotCovered \<Longrightarrow>
   text_from_part part = Inr (verdict_text (part_verdict part))"
  by (cases part) (auto simp: text_from_part_def verdict_text_def split: option.splits)

lemma parts_verdict_text:
  assumes "parts_verdict parts \<noteq> NotCovered"
  shows "first_if_any h parts text_from_part = Inr (verdict_text (parts_verdict parts))"
proof (cases parts)
  case (JArr ps)
  with assms show ?thesis
    by (cases ps) (simp_all add: first_if_any_def js_gt0_def verdict_text_def part_verdict_text)
next
  case (JStr str)
  then show ?thesis
    by (cases str) (simp_all add: first_if_any_def js_gt0_def verdict_text_def text_from_part_def)
qed (use assms in \<open>simp_all add: first_if_any_def js_gt0_def verdict_text_def\<close>)

lemma content_verdict_text:
  assumes "content_verdict content \<noteq> NotCovered"
  shows "text_from_content h content = Inr (verdict_text (content_verdict content))"
proof (cases content)
  case (JObj ct)
  show ?thesis
  proof (cases "map_of ct ''parts''")
    case None
    with JObj show ?thesis
      by (simp add: text_from_content_def first_if_any_def verdict_text_def)
  next
    case (Some parts)
    with JObj assms show ?thesis
      by (simp add: text_from_content_def parts_verdict_text)
  qed
next
  case (JStr str)
  then show ?thesis
    by (simp add: text_from_content_def first_if_any_def verdict_text_def)
next
  case (JArr xs)
  then show ?thesis
    by (simp add: text_from_content_def first_if_any_def verdict_text_def)
qed (simp_all add: text_from_content_def first_if_any_def js_gt0_def verdict_text_def)

lemma candidate_verdict_text:
  assumes "candidate_verdict candidate \<noteq> NotCovered"
  shows "text_from_candidate h candidate = Inr (verdict_text (candidate_verdict candidate))"
proof (cases candidate)
  case (JObj c)
  show ?thesis
  proof (cases "map_of c ''content''")
    case None
    with JObj show ?thesis
      by (simp add: text_from_candidate_def text_from_content_def verdict_text_def)
  next
    case (Some content)
    with JObj assms show ?thesis
      by (simp add: text_from_candidate_def content_verdict_text)
  qed
qed (use assms in \<open>simp_all add: text_from_candidate_def text_from_content_def verdict_text_def\<close>)

lemma candidates_verdict_text:
  assumes "candidates_verdict candidates \<noteq> NotCovered"
  shows "first_if_any h candidates (text_from_candidate h)
           = Inr (verdict_text (candidates_verdict candidates))"
proof (cases candidates)
  case (JArr cs)
  with assms show ?thesis
    by (cases cs) (simp_all add: first_if_any_def js_gt0_def verdict_text_def candidate_verdict_text)
next
  case (JStr str)
  then show ?thesis
    by (cases str)
       (simp_all add: first_if_any_def js_gt0_def verdict_text_def text_from_candidate_def
          text_from_content_def)
qed (use assms in \<open>simp_all add: first_if_any_def js_gt0_def verdict_text_def\<close>)

lemma envelope_verdict_text:
  assumes "envelope_verdict result \<noteq> NotCovered"
  shows "envelope_text h result = Inr (verdict_text (envelope_verdict result))"
proof (cases result)
  case (JObj kvs)
  show ?thesis
  proof (cases "map_of kvs ''candidates''")
    case None
    with JObj show ?thesis
      by (simp add: envelope_text_stepwise text_from_result_def first_if_any_def
            verdict_text_def)
  next
    case (Some candidates)
    with JObj assms show ?thesis
      by (simp add: envelope_text_stepwise text_from_result_def candidates_verdict_text)
  qed
qed (use assms in \<open>simp_all add: envelope_text_stepwise text_from_result_def first_if_any_def
       verdict_text_def\<close>)

text \<open>Reading a property of a \<^verbatim>\<open>null\<close> candidate throws; the check has no guard for it.\<close>

lemma envelope_text_null_candidate:
  "envelope_text h (JObj [(''candidates'', JArr [JNull])]) = Inl (null_read_error ''null'' ''content'')"
  by (simp add: envelope_text_stepwise text_from_result_def first_if_any_def js_gt0_def
        text_from_candidate_def)

subsection \<open>The paths through \<^verbatim>\<open>main\<close>\<close>

lemma main_usable_url:
  assumes "fst (getCurrentTabUrl h (main_start s)) = Inr (Some url)" and "url \<noteq> []"
  shows "main h s = (Inr (), main_with_url h url (snd (getCurrentTabUrl h (main_start s))))"
  using assms by (cases "getCurrentTabUrl h (main_start s)") (simp add: main_def)

subsection \<open>The example hosts\<close>

lemma page_url_nonempty: "page_url \<noteq> []"
  by (simp add: page_url_def)

lemma active_tab_url:
  "chrome h = active_tab_chrome \<Longrightarrow> getCurrentTabUrl h s = (Inr (Some page_url), s)"
  by (simp add: getCurrentTabUrl_def active_tab_chrome_def chrome_with_tabs_def
        query_callback_def page_url_def)

lemma envelope_value_text:
  "envelope_text h (envelope_value t) = Inr (if truthy t then Some t else None)"
  by (simp add: envelope_value_def envelope_text_first_part)

lemma ok_response_ok: "resp_ok \<lparr>resp_status = 200, resp_body = Inr b\<rparr>"
  by (simp add: resp_ok_def)

lemma failing_host_facts:
  "chrome failing_host = active_tab_chrome"
  "fetch failing_host req =
     Responded \<lparr>resp_status = 500, resp_body = Inr ''Internal Server Error''\<rparr>"
  by (simp_all add: failing_host_def test_host_def)


lemma prose_host_facts:
  "fetch prose_host req =
     Responded \<lparr>resp_status = 200, resp_body = Inr (envelope_json prose_text)\<rparr>"
  "JSON_parse prose_host (envelope_json prose_text) = Inr (envelope_value (JStr prose_text))"
  "JSON_parse prose_host prose_text = Inl (JsError ''SyntaxError'' ''Unexpected token'')"
  by (simp_all add: prose_host_def test_host_def envelope_json_def json_escape_def
        prose_text_def ok_response_def)

lemma two_sites_host_facts:
  "fetch two_sites_host req =
     Responded \<lparr>resp_status = 200, resp_body = Inr (envelope_json two_sites_json)\<rparr>"
  "JSON_parse two_sites_host (envelope_json two_sites_json) =
     Inr (envelope_value (JStr two_sites_json))"
  "JSON_parse two_sites_host two_sites_json = Inr two_sites_value"
  by (simp_all add: two_sites_host_def test_host_def envelope_json_def json_escape_def
        two_sites_json_def ok_response_def)

lemma mixed_host_facts:
  "fetch mixed_host req =
     Responded \<lparr>resp_status = 200, resp_body = Inr (envelope_json mixed_json)\<rparr>"
  "JSON_parse mixed_host (envelope_json mixed_json) = Inr (envelope_value (JStr mixed_json))"
  "JSON_parse mixed_host mixed_json = Inr (JObj [(''similarWebsites'', JArr mixed_elements)])"
  by (simp_all add: mixed_host_def test_host_def envelope_json_def json_escape_def
        mixed_json_def ok_response_def)

lemma second_candidate_host_facts:
  "fetch second_candidate_host req =
     Responded \<lparr>resp_status = 200, resp_body = Inr second_candidate_json\<rparr>"
  "JSON_parse second_candidate_host second_candidate_json = Inr second_candidate_value"
  by (simp_all add: second_candidate_host_def test_host_def ok_response_def)

lemma second_candidate_envelope:
  "envelope_text second_candidate_host second_candidate_value = Inr None"
  by (simp add: second_candidate_value_def envelope_text_def envelope_condition_def js_and_def
        gt0_of_def js_gt0_def)

lemma text_nonempty:
  "prose_text \<noteq> []" "two_sites_json \<noteq> []" "mixed_json \<noteq> []" "empty_json \<noteq> []"
  by (simp_all add: prose_text_def two_sites_json_def mixed_json_def empty_json_def)

lemma failing_host_fetch:
  "fetchSimilarSites failing_host (JStr page_url) s =
     (Inr [],
      s\<lparr>message_text := ''Error: API request failed with status 500. Details: Internal Server Error'',
        trace := trace s @
          [CallFetch (the_request failing_host page_url),
           CallText,
           ConsoleError [LStr ''API request failed:'', LNum 500, LStr ''Internal Server Error''],
           ConsoleError [LStr ''Error fetching similar sites:'',
             LErr (JsError ''Error''
               ''API request failed with status 500. Details: Internal Server Error'')]]\<rparr>)"
  by (simp add: fetchSimilarSites_string [OF page_url_nonempty]
        try_block_failed_status [OF failing_host_facts(2)] resp_ok_def failed_status_def
        catch_block_def after_fetch_def emit_def show_nat.simps digit_char_def)


subsection \<open>What the flow leaves on the page\<close>










subsection \<open>The inner parse by kind of payload\<close>




lemma fetch_no_data:
  assumes "url \<noteq> []"
    and "fetch h (the_request h url) = Responded r"
    and "resp_ok r"
    and "resp_body r = Inr b"
    and "JSON_parse h b = Inr result"
    and "envelope_verdict result = NoData"
  shows "fetchSimilarSites h (JStr url) s =
     (Inr [],
      emit (ConsoleWarn [LStr ''No valid candidates or content parts in API response:'',
                         LVal result])
        (emit CallJson (after_fetch h url s)))"
  using fetch_ok_result [OF assms(1-5), of s] envelope_verdict_text [of result h] assms(6)
  by (simp add: handle_result_def verdict_text_def)

lemma fetch_parse_text:
  assumes "url \<noteq> []"
    and "fetch h (the_request h url) = Responded r"
    and "resp_ok r"
    and "resp_body r = Inr b"
    and "JSON_parse h b = Inr result"
    and "envelope_verdict result = ParseText jsonText"
  shows "fetchSimilarSites h (JStr url) s =
     (Inr (fst (parse_sites h jsonText (emit CallJson (after_fetch h url s)))),
      snd (parse_sites h jsonText (emit CallJson (after_fetch h url s))))"
  using fetch_ok_result [OF assms(1-5), of s] envelope_verdict_text [of result h] assms(6)
  by (simp add: handle_result_def verdict_text_def split: prod.splits)

subsection \<open>More on the example hosts\<close>


lemma no_candidates_host_facts:
  "fetch no_candidates_host req =
     Responded \<lparr>resp_status = 200, resp_body = Inr no_candidates_json\<rparr>"
  "JSON_parse no_candidates_host no_candidates_json = Inr (JObj [(''candidates'', JArr [])])"
  by (simp_all add: no_candidates_host_def test_host_def ok_response_def)

lemma envelope_value_verdict:
  "envelope_verdict (envelope_value t) = (if truthy t then ParseText t else NoData)"
  by (simp add: envelope_value_def)



lemma transport_failure_message_overwritten:
  "message_text (snd (fetchSimilarSites failing_host (JStr page_url)
                        (main_prepared failing_host page_url blank_popup)))
     = ''Error: API request failed with status 500. Details: Internal Server Error'' \<and>
   message_text (snd (main failing_host blank_popup)) = ''No similar sites found or API error.''"
proof -
  have f: "main failing_host blank_popup =
      (Inr (), main_with_url failing_host page_url (main_start blank_popup))"
    using main_usable_url [of failing_host blank_popup page_url]
    by (simp add: active_tab_url [OF failing_host_facts(1)] page_url_nonempty)
  show ?thesis
    by (simp add: f main_with_url_def failing_host_fetch displaySimilarSites_def
          no_results_message_def)
qed

section \<open>The claims\<close>

subsection \<open>C1: the guard of \<^verbatim>\<open>fetchSimilarSites\<close>\<close>

text \<open>
  C1. For every call of \<^verbatim>\<open>fetchSimilarSites\<close> whose URL is absent or empty
  (\<^verbatim>\<open>undefined\<close>, \<^verbatim>\<open>null\<close>, the empty string), the function returns the empty
  sequence at once and leaves the world as it was: no request is sent, nothing is logged,
  nothing is written to the page.
\<close>

theorem fetchSimilarSites_guard:
  "siteUrl = JUndefined \<or> siteUrl = JNull \<or> siteUrl = JStr [] \<Longrightarrow>
   fetchSimilarSites h siteUrl s = (Inr [], s) \<and>
   trace (snd (fetchSimilarSites h siteUrl s)) = trace s"
  by (auto simp: fetchSimilarSites_def)

text \<open>C1 at \<^verbatim>\<open>null\<close>, on a host whose service would answer with two sites.\<close>

theorem fetchSimilarSites_guard_witness:
  "fetchSimilarSites two_sites_host JNull blank_popup = (Inr [], blank_popup) \<and>
   trace (snd (fetchSimilarSites two_sites_host JNull blank_popup)) = trace blank_popup"
  using fetchSimilarSites_guard [of JNull two_sites_host blank_popup] by simp

subsection \<open>C2: the tab locator without its capability\<close>

text \<open>
  C2, amended. When \<^verbatim>\<open>chrome\<close> is bound but the tab query cannot be called (a falsy
  \<^verbatim>\<open>chrome\<close>, \<^verbatim>\<open>chrome.tabs\<close> or \<^verbatim>\<open>chrome.tabs.query\<close>), \<^verbatim>\<open>getCurrentTabUrl\<close>
  logs an error and resolves with the placeholder URL \<^verbatim>\<open>https://example.com\<close>, not with
  the absent signal; when the query runs, it resolves with the URL of the first tab if that
  is a non-empty string, and with the absent signal \<^verbatim>\<open>null\<close> otherwise.
\<close>

theorem getCurrentTabUrl_outcomes:
  assumes "chrome h = ChromeBound c"
  shows "(available_query c = None \<longrightarrow>
            getCurrentTabUrl h s =
              (Inr (Some ''https://example.com''),
               emit (ConsoleError
                 [LStr ''chrome.tabs.query is not available. Are you running this in an extension popup?''])
                 s))
       \<and> (\<forall>tabs. available_query c = Some tabs \<longrightarrow>
            fst (getCurrentTabUrl h s) = Inr (usable_url tabs))"
  using assms
  by (auto simp: getCurrentTabUrl_def available_query_def usable_url_def no_capability_def
        query_callback_def split: option.splits list.splits)

text \<open>The amended C2 on a host without \<^verbatim>\<open>chrome.tabs\<close> and on a host whose query finds no tab.\<close>

theorem getCurrentTabUrl_outcomes_witness:
  "chrome no_capability_host = ChromeBound (Some (ChromeObject None)) \<and>
   available_query (Some (ChromeObject None)) = None \<and>
   fst (getCurrentTabUrl no_capability_host blank_popup) = Inr (Some ''https://example.com'') \<and>
   chrome no_tabs_host = ChromeBound (Some (ChromeObject (Some (TabsApi (Some (Some [])))))) \<and>
   available_query (Some (ChromeObject (Some (TabsApi (Some (Some [])))))) = Some (Some []) \<and>
   fst (getCurrentTabUrl no_tabs_host blank_popup) = Inr None"
proof -
  have a: "chrome no_capability_host = ChromeBound (Some (ChromeObject None))"
    by (simp add: no_capability_host_def test_host_def)
  have b: "chrome no_tabs_host = ChromeBound (Some (ChromeObject (Some (TabsApi (Some (Some []))))))"
    by (simp add: no_tabs_host_def test_host_def chrome_with_tabs_def)
  show ?thesis
    using getCurrentTabUrl_outcomes [OF a, of blank_popup]
      getCurrentTabUrl_outcomes [OF b, of blank_popup] a b
    by (simp add: available_query_def usable_url_def)
qed

text \<open>
  C2 as stated fails: without the capability the locator answers a URL, with a query that
  finds no tab it answers the absent signal, and the two answers differ.
\<close>

theorem getCurrentTabUrl_fallback_not_absent:
  "fst (getCurrentTabUrl no_capability_host blank_popup) = Inr (Some ''https://example.com'') \<and>
   fst (getCurrentTabUrl no_tabs_host blank_popup) = Inr None \<and>
   fst (getCurrentTabUrl no_capability_host blank_popup)
     \<noteq> fst (getCurrentTabUrl no_tabs_host blank_popup)"
  by (simp add: getCurrentTabUrl_def no_capability_host_def no_tabs_host_def test_host_def
        chrome_with_tabs_def no_capability_def query_callback_def)

subsection \<open>C3: inner text that is not JSON\<close>

text \<open>
  C3. When the service answers with a success status and an envelope whose extracted text
  is not valid JSON, \<^verbatim>\<open>fetchSimilarSites\<close> returns the empty sequence and raises nothing:
  the parse failure is caught by the inner handler, which logs it; the message element is
  not written.
\<close>

theorem fetchSimilarSites_inner_parse_failure:
  assumes "url \<noteq> []"
    and "fetch h (the_request h url) = Responded r"
    and "resp_ok r"
    and "resp_body r = Inr b"
    and "JSON_parse h b = Inr result"
    and "envelope_text h result = Inr (Some jsonText)"
    and "js_to_string h jsonText = Inr txt"
    and "JSON_parse h txt = Inl e"
  shows "fetchSimilarSites h (JStr url) s =
     (Inr [],
      s\<lparr>trace := trace s @
          [CallFetch (the_request h url),
           CallJson,
           CallParse txt,
           ConsoleError [LStr ''Failed to parse JSON from API response:'', LErr e,
                         LStr ''Raw text was:'', LVal jsonText]]\<rparr>)"
  using assms
  by (simp add: fetchSimilarSites_string try_block_ok response_json_def handle_result_def
        parse_sites_def parse_failed_def after_fetch_def emit_def)

text \<open>C3 on the host whose service answers with prose.\<close>

theorem fetchSimilarSites_inner_parse_failure_witness:
  "fetchSimilarSites prose_host (JStr page_url) blank_popup =
     (Inr [],
      blank_popup\<lparr>trace := trace blank_popup @
          [CallFetch (the_request prose_host page_url),
           CallJson,
           CallParse prose_text,
           ConsoleError [LStr ''Failed to parse JSON from API response:'',
                         LErr (JsError ''SyntaxError'' ''Unexpected token''),
                         LStr ''Raw text was:'', LVal (JStr prose_text)]]\<rparr>)"
proof -
  have t: "envelope_text prose_host (envelope_value (JStr prose_text)) = Inr (Some (JStr prose_text))"
    by (simp add: envelope_value_text text_nonempty)
  have c: "js_to_string prose_host (JStr prose_text) = Inr prose_text"
    by (simp add: js_to_string_def)
  show ?thesis
    by (rule fetchSimilarSites_inner_parse_failure
          [OF page_url_nonempty prose_host_facts(1) ok_response_ok _ prose_host_facts(2) t c
              prose_host_facts(3)]) simp
qed

subsection \<open>C4: the element filter\<close>

text \<open>
  C4. When the inner JSON decodes to an object holding an array under
  \<^verbatim>\<open>similarWebsites\<close>, the returned sequence is exactly the elements of that array that
  are non-empty strings beginning with \<^verbatim>\<open>http://\<close> or \<^verbatim>\<open>https://\<close>, in their
  order and with their repetitions: nothing else is dropped, nothing is cut off.
\<close>

theorem fetchSimilarSites_filters:
  assumes "url \<noteq> []"
    and "fetch h (the_request h url) = Responded r"
    and "resp_ok r"
    and "resp_body r = Inr b"
    and "JSON_parse h b = Inr result"
    and "envelope_text h result = Inr (Some jsonText)"
    and "js_to_string h jsonText = Inr txt"
    and "JSON_parse h txt = Inr parsedJson"
    and "truthy parsedJson"
    and "js_get parsedJson ''similarWebsites'' = Inr (JArr xs)"
  shows "\<exists>sites. fst (fetchSimilarSites h (JStr url) s) = Inr sites \<and>
           map JStr sites = filter spec_is_site xs"
  using assms
  by (simp add: fetchSimilarSites_string try_block_ok response_json_def handle_result_def
        parse_sites_array filter_sites_spec)

text \<open>C4 on the host whose service answers with the mixed array: six entries, one repeated.\<close>

theorem fetchSimilarSites_filters_witness:
  "fst (fetchSimilarSites mixed_host (JStr page_url) blank_popup) =
     Inr [''https://ok.com'', ''https://ok.com'', ''http://a.org'', ''https://b.org'',
          ''https://c.org'', ''https://d.org'']"
proof -
  have t: "envelope_text mixed_host (envelope_value (JStr mixed_json)) = Inr (Some (JStr mixed_json))"
    by (simp add: envelope_value_text text_nonempty)
  have c: "js_to_string mixed_host (JStr mixed_json) = Inr mixed_json"
    by (simp add: js_to_string_def)
  have g: "js_get (JObj [(''similarWebsites'', JArr mixed_elements)]) ''similarWebsites''
             = Inr (JArr mixed_elements)"
    by simp
  have "\<exists>sites. fst (fetchSimilarSites mixed_host (JStr page_url) blank_popup) = Inr sites \<and>
           map JStr sites = filter spec_is_site mixed_elements"
    by (rule fetchSimilarSites_filters
          [OF page_url_nonempty mixed_host_facts(1) ok_response_ok _ mixed_host_facts(2) t c
              mixed_host_facts(3) _ g]) simp_all
  then obtain sites where
    s: "fst (fetchSimilarSites mixed_host (JStr page_url) blank_popup) = Inr sites"
    and m: "map JStr sites = filter spec_is_site mixed_elements"
    by blast
  have "filter spec_is_site mixed_elements =
      map JStr [''https://ok.com'', ''https://ok.com'', ''http://a.org'', ''https://b.org'',
                ''https://c.org'', ''https://d.org'']"
    by (simp add: mixed_elements_def spec_is_site_def)
  with m have "map JStr sites =
      map JStr [''https://ok.com'', ''https://ok.com'', ''http://a.org'', ''https://b.org'',
                ''https://c.org'', ''https://d.org'']"
    by (rule trans)
  moreover have "inj JStr"
    by (rule injI) simp
  ultimately have "sites = [''https://ok.com'', ''https://ok.com'', ''http://a.org'',
      ''https://b.org'', ''https://c.org'', ''https://d.org'']"
    by (rule map_injective)
  with s show ?thesis by simp
qed

subsection \<open>C5: a response with a non-success status\<close>

text \<open>
  C5. When the service answers with a status outside 200 to 299 and a body,
  \<^verbatim>\<open>fetchSimilarSites\<close> reads the body as text, logs the status and the body, writes
  the error message to the message element, logs the error and returns the empty sequence;
  the response is never decoded as JSON and no inner text is parsed.
\<close>

theorem fetchSimilarSites_failed_status:
  assumes "url \<noteq> []"
    and "fetch h (the_request h url) = Responded r"
    and "\<not> resp_ok r"
    and "resp_body r = Inr errorBody"
  shows "fetchSimilarSites h (JStr url) s =
     (Inr [],
      s\<lparr>message_text :=
           ''Error: API request failed with status '' @ show_nat (resp_status r)
           @ ''. Details: '' @ errorBody,
        trace := trace s @
          [CallFetch (the_request h url),
           CallText,
           ConsoleError [LStr ''API request failed:'', LNum (resp_status r), LStr errorBody],
           ConsoleError [LStr ''Error fetching similar sites:'',
             LErr (JsError ''Error''
               (''API request failed with status '' @ show_nat (resp_status r)
                @ ''. Details: '' @ errorBody))]]\<rparr>)"
  using assms
  by (simp add: fetchSimilarSites_string try_block_failed_status failed_status_def
        catch_block_def after_fetch_def emit_def)

text \<open>C5 on the host whose service answers with status 500.\<close>

theorem fetchSimilarSites_failed_status_witness:
  "fetchSimilarSites failing_host (JStr page_url) blank_popup =
     (Inr [],
      blank_popup\<lparr>message_text :=
           ''Error: API request failed with status 500. Details: Internal Server Error'',
        trace := trace blank_popup @
          [CallFetch (the_request failing_host page_url),
           CallText,
           ConsoleError [LStr ''API request failed:'', LNum 500, LStr ''Internal Server Error''],
           ConsoleError [LStr ''Error fetching similar sites:'',
             LErr (JsError ''Error''
               ''API request failed with status 500. Details: Internal Server Error'')]]\<rparr>)"
proof -
  have n: "\<not> resp_ok \<lparr>resp_status = 500, resp_body = Inr ''Internal Server Error''\<rparr>"
    by (simp add: resp_ok_def)
  have d: "show_nat 500 = ''500''"
    by (simp add: show_nat.simps digit_char_def)
  show ?thesis
    using fetchSimilarSites_failed_status
      [OF page_url_nonempty failing_host_facts(2) n, of "''Internal Server Error''" blank_popup]
    by (simp add: d)
qed

subsection \<open>C6: no exception leaves \<^verbatim>\<open>fetchSimilarSites\<close>\<close>

text \<open>
  C6. For every URL string, and for an absent URL, whatever the host does (the request
  rejected, any status, a body that cannot be read or decoded, any decoded value, any inner
  text), \<^verbatim>\<open>fetchSimilarSites\<close> returns a sequence of strings: no error leaves it.
\<close>

theorem fetchSimilarSites_total:
  "(\<exists>sites s'. fetchSimilarSites h (JStr url) s = (Inr sites, s')) \<and>
   (\<exists>sites s'. fetchSimilarSites h JNull s = (Inr sites, s')) \<and>
   (\<exists>sites s'. fetchSimilarSites h JUndefined s = (Inr sites, s'))"
  by (auto simp: fetchSimilarSites_def build_prompt_def js_to_string_def catch_block_def
           split: prod.splits sum.splits)

text \<open>C6 on the host whose request is rejected by the network.\<close>

theorem fetchSimilarSites_total_witness:
  "\<exists>sites s'. fetchSimilarSites no_tabs_host (JStr page_url) blank_popup = (Inr sites, s')"
  using fetchSimilarSites_total [of no_tabs_host page_url blank_popup] by blast

subsection \<open>C7: the envelope check\<close>

text \<open>
  C7, amended. For every success-status response whose body decodes, the client looks at
  the first candidate and at the first part of its content only. If the body is an object
  whose \<^verbatim>\<open>candidates\<close> is a non-empty array, whose first candidate is an object with
  an object \<^verbatim>\<open>content\<close>, whose \<^verbatim>\<open>parts\<close> is a non-empty array, and whose first part
  is an object with a truthy (for a string: non-empty) \<^verbatim>\<open>text\<close>, the client goes on to
  parse that text. If a field on that way is missing or falsy, one of the two arrays is
  empty, the text is empty, or a value on that way has another type, the result is the
  empty sequence, with a warning logged and no exception raised. Nothing is said of a body,
  a first candidate or a first part that is \<^verbatim>\<open>null\<close>, nor of an object standing in
  for one of the two arrays.
\<close>

theorem fetchSimilarSites_envelope:
  assumes "url \<noteq> []"
    and "fetch h (the_request h url) = Responded r"
    and "resp_ok r"
    and "resp_body r = Inr b"
    and "JSON_parse h b = Inr result"
  shows "(\<forall>jsonText. envelope_verdict result = ParseText jsonText \<longrightarrow>
            fetchSimilarSites h (JStr url) s =
              (Inr (fst (parse_sites h jsonText (emit CallJson (after_fetch h url s)))),
               snd (parse_sites h jsonText (emit CallJson (after_fetch h url s)))))
       \<and> (\<forall>jt. envelope_verdict result = ParseText (JStr jt) \<longrightarrow>
            (\<exists>rest. trace (snd (fetchSimilarSites h (JStr url) s)) =
               trace s @ [CallFetch (the_request h url), CallJson, CallParse jt] @ rest))
       \<and> (envelope_verdict result = NoData \<longrightarrow>
            fetchSimilarSites h (JStr url) s =
              (Inr [],
               s\<lparr>trace := trace s @
                 [CallFetch (the_request h url),
                  CallJson,
                  ConsoleWarn [LStr ''No valid candidates or content parts in API response:'',
                               LVal result]]\<rparr>))"
proof -
  have parsing: "fetchSimilarSites h (JStr url) s =
      (Inr (fst (parse_sites h jsonText (emit CallJson (after_fetch h url s)))),
       snd (parse_sites h jsonText (emit CallJson (after_fetch h url s))))"
    if "envelope_verdict result = ParseText jsonText" for jsonText
    using that by (rule fetch_parse_text [OF assms])
  have calls: "\<exists>rest. trace (snd (fetchSimilarSites h (JStr url) s)) =
      trace s @ [CallFetch (the_request h url), CallJson, CallParse jt] @ rest"
    if "envelope_verdict result = ParseText (JStr jt)" for jt
  proof -
    obtain rest where
      "trace (snd (parse_sites h (JStr jt) (emit CallJson (after_fetch h url s)))) =
         trace (emit CallJson (after_fetch h url s)) @ CallParse jt # rest"
      using parse_sites_trace by blast
    then show ?thesis
      using parsing [OF that] by (simp add: after_fetch_def emit_def)
  qed
  have no_text: "fetchSimilarSites h (JStr url) s =
      (Inr [],
       s\<lparr>trace := trace s @
         [CallFetch (the_request h url),
          CallJson,
          ConsoleWarn [LStr ''No valid candidates or content parts in API response:'',
                       LVal result]]\<rparr>)"
    if "envelope_verdict result = NoData"
    using fetch_no_data [OF assms that, of s] by (simp add: after_fetch_def emit_def)
  show ?thesis
    by (intro conjI allI impI; erule parsing calls no_text)
qed

text \<open>
  The amended C7 on two hosts: a well-formed envelope around two sites, whose text is
  parsed and whose sites are returned in order, and an envelope without candidates.
\<close>

theorem fetchSimilarSites_envelope_witness:
  "fetchSimilarSites two_sites_host (JStr page_url) blank_popup =
     (Inr [''https://a.com'', ''https://b.com''],
      blank_popup\<lparr>trace :=
        [CallFetch (the_request two_sites_host page_url), CallJson, CallParse two_sites_json]\<rparr>) \<and>
   fetchSimilarSites no_candidates_host (JStr page_url) blank_popup =
     (Inr [],
      blank_popup\<lparr>trace :=
        [CallFetch (the_request no_candidates_host page_url),
         CallJson,
         ConsoleWarn [LStr ''No valid candidates or content parts in API response:'',
                      LVal (JObj [(''candidates'', JArr [])])]]\<rparr>)"
proof -
  have t: "envelope_verdict (envelope_value (JStr two_sites_json)) = ParseText (JStr two_sites_json)"
    by (simp add: envelope_value_verdict text_nonempty)
  have n: "envelope_verdict (JObj [(''candidates'', JArr [])]) = NoData"
    by simp
  have p: "parse_sites two_sites_host (JStr two_sites_json) s =
      ([''https://a.com'', ''https://b.com''], emit (CallParse two_sites_json) s)" for s
    using parse_sites_array [of two_sites_host "JStr two_sites_json" two_sites_json
        two_sites_value "[JStr ''https://a.com'', JStr ''https://b.com'']" s]
      two_sites_host_facts(3)
    by (simp add: js_to_string_def two_sites_value_def trim_def js_whitespace_def startsWith_def)
  have "fetchSimilarSites two_sites_host (JStr page_url) blank_popup =
     (Inr [''https://a.com'', ''https://b.com''],
      blank_popup\<lparr>trace :=
        [CallFetch (the_request two_sites_host page_url), CallJson, CallParse two_sites_json]\<rparr>)"
    using fetchSimilarSites_envelope
      [OF page_url_nonempty two_sites_host_facts(1) ok_response_ok _ two_sites_host_facts(2),
       of blank_popup] t
    by (simp add: p after_fetch_def emit_def blank_popup_def)
  moreover have "fetchSimilarSites no_candidates_host (JStr page_url) blank_popup =
     (Inr [],
      blank_popup\<lparr>trace :=
        [CallFetch (the_request no_candidates_host page_url),
         CallJson,
         ConsoleWarn [LStr ''No valid candidates or content parts in API response:'',
                      LVal (JObj [(''candidates'', JArr [])])]]\<rparr>)"
    using fetchSimilarSites_envelope
      [OF page_url_nonempty no_candidates_host_facts(1) ok_response_ok _
          no_candidates_host_facts(2), of blank_popup] n
    by (simp add: blank_popup_def)
  ultimately show ?thesis by (rule conjI)
qed

text \<open>
  C7 as stated fails: this body contains a candidate (the second) whose content holds a
  part with a non-empty text, yet the client does not parse it and returns the empty
  sequence.
\<close>

theorem envelope_later_candidate_ignored:
  "spec_envelope_has_text second_candidate_value \<and>
   JSON_parse second_candidate_host second_candidate_json = Inr second_candidate_value \<and>
   fetch second_candidate_host (the_request second_candidate_host page_url)
     = ok_response second_candidate_json \<and>
   fetchSimilarSites second_candidate_host (JStr page_url) blank_popup =
     (Inr [],
      blank_popup\<lparr>trace :=
        [CallFetch (the_request second_candidate_host page_url),
         CallJson,
         ConsoleWarn [LStr ''No valid candidates or content parts in API response:'',
                      LVal second_candidate_value]]\<rparr>)"
proof -
  have "spec_envelope_has_text second_candidate_value"
    by (simp add: spec_envelope_has_text_def spec_candidate_has_text_def spec_part_has_text_def
          second_candidate_value_def two_sites_json_def)
  moreover have "fetchSimilarSites second_candidate_host (JStr page_url) blank_popup =
     (Inr [],
      blank_popup\<lparr>trace :=
        [CallFetch (the_request second_candidate_host page_url),
         CallJson,
         ConsoleWarn [LStr ''No valid candidates or content parts in API response:'',
                      LVal second_candidate_value]]\<rparr>)"
    using fetch_ok_result [OF page_url_nonempty second_candidate_host_facts(1) ok_response_ok _
        second_candidate_host_facts(2), of blank_popup]
      second_candidate_envelope
    by (simp add: handle_result_def after_fetch_def emit_def blank_popup_def)
  ultimately show ?thesis
    by (simp add: second_candidate_host_facts ok_response_def)
qed

subsection \<open>C8: rendering the result\<close>

text \<open>
  C8, amended. \<^verbatim>\<open>displaySimilarSites\<close> first clears the list whatever it held. For the
  empty sequence it writes the fixed no-results text into the message element and leaves
  the list empty, changing nothing else: the visibility of the message element stays as it
  was, so the text is displayed exactly when the element was not hidden before. For a
  non-empty sequence it hides the message element and renders exactly one item per
  element, in input order, each holding one link whose target, visible text and tooltip
  are the URL and which opens in a new browsing context (\<^verbatim>\<open>_blank\<close>).
\<close>

theorem displaySimilarSites_renders:
  "displaySimilarSites [] s = s\<lparr>list_items := [], message_text := no_results_message\<rparr> \<and>
   message_shown (displaySimilarSites [] s) = message_shown s \<and>
   displaySimilarSites (site # rest) s =
     s\<lparr>list_items := map site_item (site # rest), message_display := ''none''\<rparr> \<and>
   \<not> message_shown (displaySimilarSites (site # rest) s) \<and>
   length (list_items (displaySimilarSites sites s)) = length sites \<and>
   map item_children (list_items (displaySimilarSites sites s)) = map (\<lambda>u. [site_link u]) sites \<and>
   map href (map site_link sites) = sites \<and>
   map link_text (map site_link sites) = sites \<and>
   map link_title (map site_link sites) = sites \<and>
   map link_target (map site_link sites) = replicate (length sites) ''_blank''"
proof -
  have items: "list_items (displaySimilarSites sites s) = map site_item sites"
    by (cases sites) (simp_all add: displaySimilarSites_def append_sites_items)
  have "displaySimilarSites [] s = s\<lparr>list_items := [], message_text := no_results_message\<rparr>"
    by (simp add: displaySimilarSites_def)
  moreover have "message_shown (displaySimilarSites [] s) = message_shown s"
    by (simp add: displaySimilarSites_def message_shown_def)
  moreover have "displaySimilarSites (site # rest) s =
      s\<lparr>list_items := map site_item (site # rest), message_display := ''none''\<rparr>"
    by (simp add: displaySimilarSites_def append_sites_items)
  moreover have "\<not> message_shown (displaySimilarSites (site # rest) s)"
    by (simp add: displaySimilarSites_def append_sites_items message_shown_def)
  moreover have "length (list_items (displaySimilarSites sites s)) = length sites"
    by (simp add: items)
  moreover have "map item_children (list_items (displaySimilarSites sites s))
      = map (\<lambda>u. [site_link u]) sites"
    by (simp add: items site_item_def)
  moreover have "map href (map site_link sites) = sites"
    by (induction sites) (simp_all add: site_link_def)
  moreover have "map link_text (map site_link sites) = sites"
    by (induction sites) (simp_all add: site_link_def)
  moreover have "map link_title (map site_link sites) = sites"
    by (induction sites) (simp_all add: site_link_def)
  moreover have "map link_target (map site_link sites) = replicate (length sites) ''_blank''"
    by (induction sites) (simp_all add: site_link_def)
  ultimately show ?thesis by blast
qed

text \<open>The amended C8 for one site, rendered over a list that held another.\<close>

theorem displaySimilarSites_renders_witness:
  "displaySimilarSites [''https://x.com''] (blank_popup\<lparr>list_items := [site_item ''https://old.com'']\<rparr>) =
     blank_popup\<lparr>list_items :=
         [\<lparr>item_classes = [''site-item'', ''p-2'', ''hover:bg-gray-100'', ''rounded-md''],
           item_children =
             [\<lparr>href = ''https://x.com'', link_text = ''https://x.com'', link_target = ''_blank'',
               link_classes = [''site-link'', ''text-blue-600'', ''hover:underline'', ''block'',
                               ''truncate''],
               link_title = ''https://x.com''\<rparr>]\<rparr>],
       message_display := ''none''\<rparr>"
  using displaySimilarSites_renders
    [of "blank_popup\<lparr>list_items := [site_item ''https://old.com'']\<rparr>" "''https://x.com''" "[]" "[]"]
  by (simp add: site_item_def site_link_def)

text \<open>
  C8 as stated fails: over a list rendered before (one site, which hid the message
  element), rendering the empty sequence empties the list and writes the no-results text,
  but the message element is not displayed.
\<close>

theorem empty_render_message_not_displayed:
  "list_items (displaySimilarSites [''https://x.com''] blank_popup) = [site_item ''https://x.com''] \<and>
   list_items (displaySimilarSites [] (displaySimilarSites [''https://x.com''] blank_popup)) = [] \<and>
   message_text (displaySimilarSites [] (displaySimilarSites [''https://x.com''] blank_popup))
     = ''No similar sites found or API error.'' \<and>
   \<not> message_shown (displaySimilarSites [] (displaySimilarSites [''https://x.com''] blank_popup))"
  by (simp add: displaySimilarSites_def message_shown_def no_results_message_def)

subsection \<open>C9: what the user sees after a failure\<close>




subsection \<open>C10: the message element stays hidden\<close>

text \<open>
  C10. \<^verbatim>\<open>displaySimilarSites\<close> hides the message element when it renders a non-empty
  sequence and never shows it again: rendering the empty sequence writes the no-results
  text and leaves the element's display as it was, so after a non-empty render an empty
  render sets the text while the element stays hidden. The current-site text and tooltip
  and the loader are never touched, and nothing is logged.
\<close>

theorem displaySimilarSites_message_stays_hidden:
  "message_display (displaySimilarSites [] s) = message_display s \<and>
   message_text (displaySimilarSites [] s) = no_results_message \<and>
   message_display (displaySimilarSites (site # rest) s) = ''none'' \<and>
   message_display (displaySimilarSites [] (displaySimilarSites (site # rest) s)) = ''none'' \<and>
   message_text (displaySimilarSites [] (displaySimilarSites (site # rest) s)) = no_results_message \<and>
   currentSite_text (displaySimilarSites sites s) = currentSite_text s \<and>
   currentSite_title (displaySimilarSites sites s) = currentSite_title s \<and>
   loader_display (displaySimilarSites sites s) = loader_display s \<and>
   trace (displaySimilarSites sites s) = trace s"
  by (simp add: displaySimilarSites_def append_sites_items)

text \<open>C10 for an empty render after a render of one site.\<close>

theorem displaySimilarSites_message_stays_hidden_witness:
  "message_display (displaySimilarSites [] (displaySimilarSites [''https://x.com''] blank_popup))
     = ''none'' \<and>
   message_text (displaySimilarSites [] (displaySimilarSites [''https://x.com''] blank_popup))
     = ''No similar sites found or API error.''"
  using displaySimilarSites_message_stays_hidden [of blank_popup "''https://x.com''" "[]" "[]"]
  by (simp add: no_results_message_def)

end
